theory Spec2Isabelle
  imports Complex_Main
begin

section \<open>Data model (app/database/models.py)\<close>

text \<open>
  Primary keys are UUIDs and timestamps are datetimes; only their equality matters here,
  so both are natural numbers. Python's \<open>int\<close> is unbounded, hence \<open>int\<close>; the
  \<open>float\<close> columns (price, total_amount, price_at_purchase) are read as exact reals,
  so rounding of the binary floating-point format is not part of this model.
\<close>

type_synonym uuid = nat
type_synonym datetime = nat

datatype OrderStatus = PENDING | PAID | PROCESSING | SHIPPED | DELIVERED | CANCELLED | REFUNDED

record Product =
  p_name :: string
  p_description :: string
  p_price :: real
  p_stock :: int
  p_image_urls :: "string list"
  p_is_active :: bool
  p_created_at :: datetime
  p_updated_at :: datetime
  p_seller_id :: uuid
  p_category_id :: "uuid option"

record CartItem =
  ci_id :: uuid
  ci_quantity :: int
  ci_created_at :: datetime
  ci_updated_at :: datetime
  ci_user_id :: uuid
  ci_product_id :: uuid

record Order =
  o_id :: uuid
  o_order_number :: string
  o_status :: OrderStatus
  o_total_amount :: real
  o_shipping_address :: string
  o_shipping_city :: string
  o_shipping_zip :: string
  o_shipping_phone :: string
  o_created_at :: datetime
  o_updated_at :: datetime
  o_buyer_id :: uuid

record OrderItem =
  oi_id :: uuid
  oi_quantity :: int
  oi_price_at_purchase :: real
  oi_order_id :: uuid
  oi_product_id :: uuid

text \<open>
  The tables. \<open>products\<close> is keyed by its primary key, which is the only way the order
  workflow reads it; a product's \<open>id\<close> is its key, and \<open>CartItem.product\<close>,
  \<open>OrderItem.product\<close> and \<open>session.get(Product, id)\<close> are lookups. The other tables are row lists: \<open>cart_items\<close> and \<open>order_items\<close>
  are read through a foreign key (\<open>User.cart_items\<close>, \<open>Order.items\<close>), in the order
  the relationship loads them, and \<open>orders\<close> is searched by \<open>id\<close> and, for its unique
  constraint, by \<open>order_number\<close>.
\<close>

record db =
  products :: "uuid \<rightharpoonup> Product"
  cart_items :: "CartItem list"
  orders :: "Order list"
  order_items :: "OrderItem list"

text \<open>
  An \<open>AsyncSession\<close>: the committed rows, and the rows as the session sees them, with
  the changes it has not committed yet. \<open>get_session\<close> (app/database/session.py) opens
  a fresh session for one request and closes it afterwards, which discards whatever was
  not committed.
\<close>

record Session =
  database :: db
  pending :: db

definition new_session :: "db \<Rightarrow> Session" where
  "new_session d = \<lparr>database = d, pending = d\<rparr>"

definition commit :: "Session \<Rightarrow> Session" where
  "commit s = s\<lparr>database := pending s\<rparr>"

definition get_session :: "(Session \<Rightarrow> 'a \<times> Session) \<Rightarrow> db \<Rightarrow> 'a \<times> db" where
  "get_session f d = (case f (new_session d) of (r, s) \<Rightarrow> (r, database s))"

section \<open>Errors\<close>

text \<open>
  Every \<open>raise HTTPException(status_code, detail)\<close> of the services is a value: the
  status code and the detail message, the latter with the data its f-string interpolates.
  \<open>IntegrityError\<close> is what a violated primary-key or unique constraint raises at
  flush, \<open>AttributeError\<close> an attribute read on \<open>None\<close>, \<open>NoResultFound\<close> what
  \<open>scalar_one()\<close> raises on an empty result.
\<close>

datatype detail =
    CartIsEmpty
  | NoLongerAvailable string
  | NotEnoughStock string int
  | OrderNotFound
  | NotYourOrder
  | CannotCancel OrderStatus
  | ProductNotFound
  | NotYourProduct

datatype error =
    HTTPException nat detail
  | IntegrityError
  | AttributeError
  | NoResultFound

text \<open>The error kinds of the specification, as the raise sites of the code produce them.\<close>

definition EmptyCart :: error where
  "EmptyCart = HTTPException 400 CartIsEmpty"

definition ProductUnavailable :: "string \<Rightarrow> error" where
  "ProductUnavailable n = HTTPException 400 (NoLongerAvailable n)"

definition InsufficientStock :: "string \<Rightarrow> int \<Rightarrow> error" where
  "InsufficientStock n k = HTTPException 400 (NotEnoughStock n k)"

definition NotFound :: error where
  "NotFound = HTTPException 404 OrderNotFound"

definition Forbidden :: error where
  "Forbidden = HTTPException 403 NotYourOrder"

definition InvalidState :: "OrderStatus \<Rightarrow> error" where
  "InvalidState st = HTTPException 400 (CannotCancel st)"

section \<open>What a call reads from outside the database\<close>

text \<open>
  The clock (\<open>datetime.utcnow()\<close>), the random source (\<open>secrets.token_hex\<close>) and
  the UUID generator (\<open>uuid4\<close>) are inputs of a call: \<open>utcnow\<close> is the time read,
  \<open>today\<close> its \<open>strftime("%Y%m%d")\<close>, \<open>random_part\<close> the upper-cased
  \<open>token_hex(4)\<close>, \<open>order_uuid\<close> the id of the new order and \<open>item_uuid k\<close> the id
  of the k-th new order item.
\<close>

record env =
  utcnow :: datetime
  today :: string
  random_part :: string
  order_uuid :: uuid
  item_uuid :: "nat \<Rightarrow> uuid"

record CheckoutRequest =
  shipping_address :: string
  shipping_city :: string
  shipping_zip :: string
  shipping_phone :: string

section \<open>OrderService (app/services/order_service.py)\<close>

definition generate_order_number :: "env \<Rightarrow> string" where
  "generate_order_number e = ''ORD-'' @ today e @ ''-'' @ random_part e"

text \<open>The relationships \<open>User.cart_items\<close> and \<open>Order.items\<close>, and \<open>get_by_id\<close>.\<close>

definition user_cart_items :: "db \<Rightarrow> uuid \<Rightarrow> CartItem list" where
  "user_cart_items d uid = filter (\<lambda>ci. ci_user_id ci = uid) (cart_items d)"

definition items_of :: "db \<Rightarrow> uuid \<Rightarrow> OrderItem list" where
  "items_of d oid = filter (\<lambda>it. oi_order_id it = oid) (order_items d)"

definition find_order :: "db \<Rightarrow> uuid \<Rightarrow> Order option" where
  "find_order d oid = find (\<lambda>r. o_id r = oid) (orders d)"

definition get_by_id :: "Session \<Rightarrow> uuid \<Rightarrow> Order option" where
  "get_by_id s oid = find_order (pending s) oid"

text \<open>An attribute assignment on a loaded order, as the UPDATE the session sends for it.\<close>

definition save_order :: "db \<Rightarrow> Order \<Rightarrow> db" where
  "save_order d order = d\<lparr>orders := map (\<lambda>r. if o_id r = o_id order then order else r) (orders d)\<rparr>"

text \<open>The dictionaries collected in \<open>order_items_data\<close>.\<close>

record item_data =
  d_product_id :: uuid
  d_quantity :: int
  d_price_at_purchase :: real

text \<open>
  The first loop of \<open>checkout\<close> (lines 115 to 140): it reads the loaded cart items and
  their products, accumulates \<open>total_amount\<close> and \<open>order_items_data\<close>, and raises at
  the first item that fails a check. It writes nothing.
\<close>

fun validate_cart ::
  "(uuid \<rightharpoonup> Product) \<Rightarrow> CartItem list \<Rightarrow> real \<Rightarrow> item_data list \<Rightarrow> error + real \<times> item_data list"
where
  "validate_cart ps [] total_amount order_items_data = Inr (total_amount, order_items_data)"
| "validate_cart ps (cart_item # rest) total_amount order_items_data =
     (case ps (ci_product_id cart_item) of
        None \<Rightarrow> Inl AttributeError
      | Some product \<Rightarrow>
          if \<not> p_is_active product then
            Inl (HTTPException 400 (NoLongerAvailable (p_name product)))
          else if p_stock product < ci_quantity cart_item then
            Inl (HTTPException 400 (NotEnoughStock (p_name product) (p_stock product)))
          else
            validate_cart ps rest
              (total_amount + p_price product * real_of_int (ci_quantity cart_item))
              (order_items_data @
                 [\<lparr>d_product_id = ci_product_id cart_item,
                   d_quantity = ci_quantity cart_item,
                   d_price_at_purchase = p_price product\<rparr>]))"

text \<open>
  \<open>session.add(order); await session.flush()\<close>: the INSERT is rejected when the primary
  key or the unique \<open>order_number\<close> is already taken.
\<close>

definition order_number_taken :: "db \<Rightarrow> string \<Rightarrow> bool" where
  "order_number_taken d n = (n \<in> set (map o_order_number (orders d)))"

definition order_id_taken :: "db \<Rightarrow> uuid \<Rightarrow> bool" where
  "order_id_taken d i = (i \<in> set (map o_id (orders d)))"

definition add_order :: "db \<Rightarrow> Order \<Rightarrow> error + db" where
  "add_order d order =
     (if order_id_taken d (o_id order) then Inl IntegrityError
      else if order_number_taken d (o_order_number order) then Inl IntegrityError
      else Inr (d\<lparr>orders := orders d @ [order]\<rparr>))"

text \<open>
  The second loop (lines 157 to 166): for the k-th entry, \<open>session.get(Product, ...)\<close>,
  a new OrderItem, and the stock decrement on the loaded product.
\<close>

fun create_items :: "env \<Rightarrow> uuid \<Rightarrow> nat \<Rightarrow> item_data list \<Rightarrow> db \<Rightarrow> (error + unit) \<times> db" where
  "create_items e oid k [] d = (Inr (), d)"
| "create_items e oid k (item # rest) d =
     (case products d (d_product_id item) of
        None \<Rightarrow> (Inl AttributeError, d)
      | Some product \<Rightarrow>
          create_items e oid (Suc k) rest
            (d\<lparr>order_items := order_items d @
                  [\<lparr>oi_id = item_uuid e k,
                    oi_quantity = d_quantity item,
                    oi_price_at_purchase = d_price_at_purchase item,
                    oi_order_id = oid,
                    oi_product_id = d_product_id item\<rparr>],
                products := (products d)(d_product_id item \<mapsto>
                  product\<lparr>p_stock := p_stock product - d_quantity item,
                          p_updated_at := utcnow e\<rparr>)\<rparr>))"

text \<open>The third loop (lines 169 and 170): \<open>session.delete\<close> of each loaded cart item.\<close>

fun delete_cart_items :: "CartItem list \<Rightarrow> CartItem list \<Rightarrow> CartItem list" where
  "delete_cart_items [] rows = rows"
| "delete_cart_items (cart_item # rest) rows =
     delete_cart_items rest (filter (\<lambda>r. ci_id r \<noteq> ci_id cart_item) rows)"

text \<open>
  \<open>await session.commit()\<close> of \<open>checkout\<close> sends the new order items; their primary
  keys must be new and pairwise different.
\<close>

definition new_item_ids :: "db \<Rightarrow> db \<Rightarrow> uuid list" where
  "new_item_ids before after =
     map oi_id (drop (length (order_items before)) (order_items after))"

definition new_items_ok :: "db \<Rightarrow> db \<Rightarrow> bool" where
  "new_items_ok before after =
     (distinct (new_item_ids before after) \<and>
      set (new_item_ids before after) \<inter> set (map oi_id (order_items before)) = {})"

definition checkout :: "Session \<Rightarrow> env \<Rightarrow> CheckoutRequest \<Rightarrow> uuid \<Rightarrow> (error + Order) \<times> Session" where
  "checkout s e checkout_data user_id =
     (let cart = user_cart_items (pending s) user_id in
      if cart = [] then (Inl (HTTPException 400 CartIsEmpty), s)
      else
        case validate_cart (products (pending s)) cart 0 [] of
          Inl err \<Rightarrow> (Inl err, s)
        | Inr (total_amount, order_items_data) \<Rightarrow>
            let order = \<lparr>o_id = order_uuid e,
                         o_order_number = generate_order_number e,
                         o_status = PENDING,
                         o_total_amount = total_amount,
                         o_shipping_address = shipping_address checkout_data,
                         o_shipping_city = shipping_city checkout_data,
                         o_shipping_zip = shipping_zip checkout_data,
                         o_shipping_phone = shipping_phone checkout_data,
                         o_created_at = utcnow e,
                         o_updated_at = utcnow e,
                         o_buyer_id = user_id\<rparr>
            in
              case add_order (pending s) order of
                Inl err \<Rightarrow> (Inl err, s)
              | Inr d1 \<Rightarrow>
                  (case create_items e (o_id order) 0 order_items_data d1 of
                     (Inl err, d2) \<Rightarrow> (Inl err, s\<lparr>pending := d2\<rparr>)
                   | (Inr u, d2) \<Rightarrow>
                       let d3 = d2\<lparr>cart_items := delete_cart_items cart (cart_items d2)\<rparr> in
                       if new_items_ok (pending s) d3 then
                         let s' = commit (s\<lparr>pending := d3\<rparr>) in
                         (case find_order (pending s') (o_id order) of
                            None \<Rightarrow> (Inl NoResultFound, s')
                          | Some result \<Rightarrow> (Inr result, s'))
                       else (Inl IntegrityError, s\<lparr>pending := d3\<rparr>)))"

definition update_status :: "Session \<Rightarrow> env \<Rightarrow> uuid \<Rightarrow> OrderStatus \<Rightarrow> (error + Order) \<times> Session" where
  "update_status s e order_id status_update =
     (case get_by_id s order_id of
        None \<Rightarrow> (Inl (HTTPException 404 OrderNotFound), s)
      | Some order \<Rightarrow>
          let order' = order\<lparr>o_status := status_update, o_updated_at := utcnow e\<rparr>;
              s' = commit (s\<lparr>pending := save_order (pending s) order'\<rparr>)
          in (case find_order (pending s') (o_id order') of
                None \<Rightarrow> (Inl NoResultFound, s')
              | Some result \<Rightarrow> (Inr result, s')))"

text \<open>The loop of \<open>cancel_order\<close> (lines 245 to 248) over \<open>order.items\<close>.\<close>

fun restore_stock :: "env \<Rightarrow> OrderItem list \<Rightarrow> (uuid \<rightharpoonup> Product) \<Rightarrow> (error + unit) \<times> (uuid \<rightharpoonup> Product)" where
  "restore_stock e [] ps = (Inr (), ps)"
| "restore_stock e (item # rest) ps =
     (case ps (oi_product_id item) of
        None \<Rightarrow> (Inl AttributeError, ps)
      | Some product \<Rightarrow>
          restore_stock e rest
            (ps(oi_product_id item \<mapsto>
               product\<lparr>p_stock := p_stock product + oi_quantity item,
                       p_updated_at := utcnow e\<rparr>)))"

definition cancel_order :: "Session \<Rightarrow> env \<Rightarrow> uuid \<Rightarrow> uuid \<Rightarrow> (error + Order) \<times> Session" where
  "cancel_order s e order_id user_id =
     (case get_by_id s order_id of
        None \<Rightarrow> (Inl (HTTPException 404 OrderNotFound), s)
      | Some order \<Rightarrow>
          if o_buyer_id order \<noteq> user_id then (Inl (HTTPException 403 NotYourOrder), s)
          else if o_status order \<in> set [SHIPPED, DELIVERED, CANCELLED] then
            (Inl (HTTPException 400 (CannotCancel (o_status order))), s)
          else
            let d = pending s in
            (case restore_stock e (items_of d order_id) (products d) of
               (Inl err, ps) \<Rightarrow> (Inl err, s\<lparr>pending := d\<lparr>products := ps\<rparr>\<rparr>)
             | (Inr u, ps) \<Rightarrow>
                 let order' = order\<lparr>o_status := CANCELLED, o_updated_at := utcnow e\<rparr>;
                     s' = commit (s\<lparr>pending := save_order (d\<lparr>products := ps\<rparr>) order'\<rparr>)
                 in (Inr order', s')))"

section \<open>Scenario data\<close>

text \<open>
  The rows of the scenarios used below: product A (price 10, stock 5) and product B
  (price 20, stock 1), buyer 100 with a cart, and an order 200 of buyer 100 holding two
  units of product A after they were taken from the stock.
\<close>

definition product_A :: Product where
  "product_A = \<lparr>p_name = ''A'', p_description = ''first'', p_price = 10, p_stock = 5,
     p_image_urls = [], p_is_active = True, p_created_at = 1, p_updated_at = 1,
     p_seller_id = 50, p_category_id = None\<rparr>"

definition product_B :: Product where
  "product_B = \<lparr>p_name = ''B'', p_description = ''second'', p_price = 20, p_stock = 1,
     p_image_urls = [], p_is_active = True, p_created_at = 1, p_updated_at = 1,
     p_seller_id = 50, p_category_id = None\<rparr>"

definition cart_item_A :: CartItem where
  "cart_item_A = \<lparr>ci_id = 11, ci_quantity = 2, ci_created_at = 2, ci_updated_at = 2,
     ci_user_id = 100, ci_product_id = 1\<rparr>"

definition cart_item_B :: CartItem where
  "cart_item_B = \<lparr>ci_id = 12, ci_quantity = 2, ci_created_at = 2, ci_updated_at = 2,
     ci_user_id = 100, ci_product_id = 2\<rparr>"

definition cart_db :: "CartItem list \<Rightarrow> db" where
  "cart_db cart = \<lparr>products = [1 \<mapsto> product_A, 2 \<mapsto> product_B], cart_items = cart,
     orders = [], order_items = []\<rparr>"

definition scenario_env :: env where
  "scenario_env = \<lparr>utcnow = 7, today = ''20240101'', random_part = ''0A1B2C3D'',
     order_uuid = 200, item_uuid = (\<lambda>k. 300 + k)\<rparr>"

definition scenario_request :: CheckoutRequest where
  "scenario_request = \<lparr>shipping_address = ''1 Main Street'', shipping_city = ''Springfield'',
     shipping_zip = ''12345'', shipping_phone = ''5550001111''\<rparr>"

definition scenario_order :: "OrderStatus \<Rightarrow> Order" where
  "scenario_order st = \<lparr>o_id = 200, o_order_number = ''ORD-20240101-0A1B2C3D'', o_status = st,
     o_total_amount = 20, o_shipping_address = ''1 Main Street'',
     o_shipping_city = ''Springfield'', o_shipping_zip = ''12345'',
     o_shipping_phone = ''5550001111'', o_created_at = 3, o_updated_at = 3,
     o_buyer_id = 100\<rparr>"

definition scenario_item :: OrderItem where
  "scenario_item = \<lparr>oi_id = 300, oi_quantity = 2, oi_price_at_purchase = 10,
     oi_order_id = 200, oi_product_id = 1\<rparr>"

definition order_db :: "OrderStatus \<Rightarrow> db" where
  "order_db st = \<lparr>products = [1 \<mapsto> product_A\<lparr>p_stock := 3\<rparr>, 2 \<mapsto> product_B],
     cart_items = [], orders = [scenario_order st], order_items = [scenario_item]\<rparr>"

lemmas scenario_defs =
  product_A_def product_B_def cart_item_A_def cart_item_B_def cart_db_def scenario_env_def
  scenario_request_def scenario_order_def scenario_item_def order_db_def

section \<open>Reading and saving an order\<close>

lemma find_map_upd:
  "find (\<lambda>r. o_id r = oid) xs = Some x \<Longrightarrow> o_id y = oid \<Longrightarrow>
   find (\<lambda>r. o_id r = oid) (map (\<lambda>r. if o_id r = oid then y else r) xs) = Some y"
  by (induction xs) (auto split: if_splits)

lemma find_order_id: "find_order d oid = Some x \<Longrightarrow> o_id x = oid"
  by (auto simp: find_order_def find_Some_iff)

lemma find_order_save:
  "find_order d oid = Some x \<Longrightarrow> o_id y = oid \<Longrightarrow> find_order (save_order d y) oid = Some y"
  by (simp add: find_order_def save_order_def find_map_upd)

section \<open>update_status\<close>

lemma update_status_found:
  assumes "get_by_id s oid = Some order"
  shows "update_status s e oid st =
     (Inr (order\<lparr>o_status := st, o_updated_at := utcnow e\<rparr>),
      commit (s\<lparr>pending := save_order (pending s) (order\<lparr>o_status := st, o_updated_at := utcnow e\<rparr>)\<rparr>))"
proof -
  from assms have f: "find_order (pending s) oid = Some order"
    by (simp add: get_by_id_def)
  have i: "o_id order = oid"
    using f by (rule find_order_id)
  have "find_order (save_order (pending s) (order\<lparr>o_status := st, o_updated_at := utcnow e\<rparr>)) oid
        = Some (order\<lparr>o_status := st, o_updated_at := utcnow e\<rparr>)"
    using f i by (intro find_order_save) auto
  then show ?thesis
    using assms i by (simp add: update_status_def Let_def commit_def)
qed

lemma update_status_missing:
  "get_by_id s oid = None \<Longrightarrow> update_status s e oid st = (Inl NotFound, s)"
  by (simp add: update_status_def NotFound_def)

text \<open>
  C5. \<open>update_status\<close> fails only with NotFound, and exactly when the order does not
  exist. On an existing order, whatever its status and whatever the target status, it
  returns the order with the target status and a new \<open>updated_at\<close>, and commits it:
  no pair of old and new status is refused.
\<close>

theorem update_status_any_transition:
  "(fst (update_status s e oid st) = Inl err \<longleftrightarrow> err = NotFound \<and> get_by_id s oid = None) \<and>
   (get_by_id s oid = Some order \<longrightarrow>
      fst (update_status s e oid st) = Inr (order\<lparr>o_status := st, o_updated_at := utcnow e\<rparr>) \<and>
      find_order (database (snd (update_status s e oid st))) oid =
        Some (order\<lparr>o_status := st, o_updated_at := utcnow e\<rparr>))"
proof (cases "get_by_id s oid")
  case None
  then show ?thesis
    by (auto simp: update_status_missing)
next
  case (Some a)
  have i: "o_id a = oid"
    using Some by (simp add: get_by_id_def find_order_id)
  have "find_order (save_order (pending s) (a\<lparr>o_status := st, o_updated_at := utcnow e\<rparr>)) oid
        = Some (a\<lparr>o_status := st, o_updated_at := utcnow e\<rparr>)"
    using Some i by (intro find_order_save) (auto simp: get_by_id_def)
  then show ?thesis
    using Some by (auto simp: update_status_found commit_def)
qed

theorem update_status_any_transition_witness:
  "get_by_id (new_session (order_db DELIVERED)) 200 = Some (scenario_order DELIVERED) \<and>
   fst (update_status (new_session (order_db DELIVERED)) scenario_env 200 PENDING) =
     Inr ((scenario_order DELIVERED)\<lparr>o_status := PENDING, o_updated_at := 7\<rparr>) \<and>
   fst (update_status (new_session (order_db DELIVERED)) scenario_env 201 PENDING) = Inl NotFound"
proof -
  have h: "get_by_id (new_session (order_db DELIVERED)) 200 = Some (scenario_order DELIVERED)"
    by (simp add: get_by_id_def find_order_def new_session_def scenario_defs)
  have n: "get_by_id (new_session (order_db DELIVERED)) 201 = None"
    by (simp add: get_by_id_def find_order_def new_session_def scenario_defs)
  show ?thesis
    using h n
      update_status_any_transition [of "new_session (order_db DELIVERED)" scenario_env 200 PENDING
        _ "scenario_order DELIVERED"]
      update_status_any_transition [of "new_session (order_db DELIVERED)" scenario_env 201 PENDING
        NotFound]
    by (simp add: scenario_env_def)
qed

section \<open>cancel_order\<close>

lemma restore_stock_error:
  "restore_stock e items ps = (Inl err, ps') \<Longrightarrow> err = AttributeError"
  by (induction items arbitrary: ps) (auto split: option.splits)

text \<open>
  C9. \<open>cancel_order\<close> answers NotFound exactly when the order is absent, Forbidden
  exactly when it exists and the caller is not its buyer (whatever its status), and
  InvalidState exactly when it exists, the caller is its buyer and the status is shipped,
  delivered or cancelled.
\<close>

theorem cancel_order_precedence:
  "(fst (cancel_order s e oid uid) = Inl NotFound \<longleftrightarrow> get_by_id s oid = None) \<and>
   (fst (cancel_order s e oid uid) = Inl Forbidden \<longleftrightarrow>
      (\<exists>order. get_by_id s oid = Some order \<and> o_buyer_id order \<noteq> uid)) \<and>
   (fst (cancel_order s e oid uid) = Inl (InvalidState st) \<longleftrightarrow>
      (\<exists>order. get_by_id s oid = Some order \<and> o_buyer_id order = uid \<and> o_status order = st
         \<and> st \<in> {SHIPPED, DELIVERED, CANCELLED}))"
  by (auto simp: cancel_order_def NotFound_def Forbidden_def InvalidState_def Let_def
      split: option.splits prod.splits sum.splits dest: restore_stock_error)

theorem cancel_order_precedence_witness:
  "get_by_id (new_session (order_db SHIPPED)) 200 = Some (scenario_order SHIPPED) \<and>
   o_buyer_id (scenario_order SHIPPED) \<noteq> 101 \<and>
   fst (cancel_order (new_session (order_db SHIPPED)) scenario_env 200 101) = Inl Forbidden \<and>
   fst (cancel_order (new_session (order_db SHIPPED)) scenario_env 200 101)
     \<noteq> Inl (InvalidState SHIPPED)"
proof -
  have h: "get_by_id (new_session (order_db SHIPPED)) 200 = Some (scenario_order SHIPPED)"
    by (simp add: get_by_id_def find_order_def new_session_def scenario_defs)
  have b: "o_buyer_id (scenario_order SHIPPED) \<noteq> 101"
    by (simp add: scenario_order_def)
  show ?thesis
    using h b cancel_order_precedence [of "new_session (order_db SHIPPED)" scenario_env 200 101 SHIPPED]
    by (simp add: Forbidden_def InvalidState_def)
qed

end
